theory Spec2Isabelle
  imports Main "HOL-Library.Word"
begin

section \<open>The VNC frame buffer driver (graphics/vnc/server/vnc_fbdev.c)\<close>

text \<open>
  A shallow embedding of the frame buffer driver of the VNC server. Every C function of
  the file is a HOL function that takes the global data (\<open>vnc_world\<close>) and returns it
  again, so that what a call writes, and what it leaves alone, is visible in its result.
  A pointer is an \<open>option\<close>: \<open>None\<close> is \<open>NULL\<close>. A pointer to the \<open>vtable\<close> member of
  \<open>g_fbinfo[i]\<close> is the index \<open>i\<close>; the structure a caller passes by reference is passed
  by value and handed back with the contents it has when the call returns.
\<close>

subsection \<open>Build configuration\<close>

text \<open>
  The constants and switches of \<open>nuttx/config.h\<close> and \<open>vnc_server.h\<close> that the file
  uses. Neither header is among the sources, so they are parameters of the model.
  \<open>CONFIG_DEBUG\<close> selects whether \<open>DEBUGASSERT\<close> checks its condition or expands
  to nothing.
\<close>

record vnc_config =
  RFB_MAX_DISPLAYS :: nat
  CONFIG_VNCSERVER_SCREENWIDTH :: int
  CONFIG_DEBUG :: bool
  CONFIG_FB_CMAP :: bool
  CONFIG_FB_HWCURSOR :: bool

definition OK :: int where
  "OK = 0"

definition EINVAL :: int where
  "EINVAL = 22"

definition ENOTCONN :: int where
  "ENOTCONN = 107"

subsection \<open>Outcomes of a call\<close>

text \<open>
  A call returns a value, or stops in a failed \<open>DEBUGASSERT\<close>, or dereferences
  \<open>NULL\<close>, or indexes an array outside its bounds.
\<close>

datatype 'a outcome =
    Returns 'a
  | AssertionFailed
  | NullDereference
  | OutOfBounds

text \<open>
  \<open>DEBUGASSERT(f)\<close>: the value says whether execution goes on past the macro. Without
  \<open>CONFIG_DEBUG\<close> the macro is empty and execution always goes on.
\<close>

definition DEBUGASSERT :: "vnc_config \<Rightarrow> bool \<Rightarrow> bool" where
  "DEBUGASSERT cfg f = (if CONFIG_DEBUG cfg then f else True)"

subsection \<open>Data\<close>

text \<open>
  Modelled from the spec: the session states are declared in \<open>vnc_server.h\<close>, which is
  not among the sources. The driver names only \<open>VNCSERVER_SCANNING\<close>, the state the
  spec calls READY; the other three are the spec's IDLE, NEGOTIATING and STOPPED.
\<close>

datatype vnc_state_e =
    VNCSERVER_IDLE
  | VNCSERVER_NEGOTIATING
  | VNCSERVER_SCANNING
  | VNCSERVER_STOPPED

text \<open>
  Modelled from the spec: \<open>struct vnc_session_s\<close> is declared in \<open>vnc_server.h\<close>. The
  record has the members the driver reads: the state, the colour format, the bits per
  pixel, the stride (a \<open>size_t\<close>, here a natural number, cast where the driver casts
  it), the screen size \<open>screen.w\<close> and \<open>screen.h\<close>, and the frame buffer pointer.
\<close>

record vnc_session_s =
  state :: vnc_state_e
  colorfmt :: "8 word"
  bpp :: "8 word"
  stride :: nat
  screen_w :: int
  screen_h :: int
  fb :: "nat option"

text \<open>The operations a \<open>vtable\<close> member can point to.\<close>

datatype vnc_op =
    UP_GETVIDEOINFO
  | UP_GETPLANEINFO
  | UP_GETCMAP
  | UP_PUTCMAP
  | UP_GETCURSOR
  | UP_SETCURSOR

record fb_vtable_s =
  getvideoinfo :: "vnc_op option"
  getplaneinfo :: "vnc_op option"
  getcmap :: "vnc_op option"
  putcmap :: "vnc_op option"
  getcursor :: "vnc_op option"
  setcursor :: "vnc_op option"

record vnc_fbinfo_s =
  vtable :: fb_vtable_s
  initialized :: bool
  display :: "8 word"

text \<open>
  The structures of \<open>nuttx/video/fb.h\<close> that the driver fills in or receives;
  \<open>fb_coord_t\<close> is a 16-bit unsigned integer.
\<close>

record fb_videoinfo_s =
  fmt :: "8 word"
  xres :: "16 word"
  yres :: "16 word"
  nplanes :: "8 word"

text \<open>
  What \<open>fbmem\<close> can point to: a frame buffer, or the \<open>fb\<close> member of the session of
  a display.
\<close>

datatype fbmem_ref =
    Framebuffer nat
  | Session_fb_member int

record fb_planeinfo_s =
  fbmem :: "fbmem_ref option"
  fblen :: "32 word"
  pinfo_stride :: "16 word"
  pinfo_bpp :: "8 word"

record fb_cmap_s =
  first :: "16 word"
  len :: "16 word"
  red :: "8 word list"
  green :: "8 word list"
  blue :: "8 word list"

record fb_cursorpos_s =
  cursor_x :: "16 word"
  cursor_y :: "16 word"

record fb_cursorsize_s =
  cursor_h :: "16 word"
  cursor_w :: "16 word"

record fb_cursorattrib_s =
  attrib_pos :: fb_cursorpos_s
  attrib_mxsize :: fb_cursorsize_s
  attrib_size :: fb_cursorsize_s

record fb_setcursor_s =
  flags :: "8 word"
  setcursor_pos :: fb_cursorpos_s
  setcursor_size :: fb_cursorsize_s

text \<open>
  The global data: the session directory behind \<open>vnc_find_session\<close>, and the
  driver's own \<open>g_fbinfo\<close>, \<open>g_cpos\<close> and \<open>g_csize\<close>.
\<close>

record vnc_world =
  g_vnc_sessions :: "vnc_session_s option list"
  g_fbinfo :: "vnc_fbinfo_s list"
  g_cpos :: fb_cursorpos_s
  g_csize :: fb_cursorsize_s

text \<open>
  Modelled from the spec: \<open>vnc_find_session\<close> is defined in another file of the
  server. The spec gives it as the lookup of the session directory, a table of fixed
  capacity indexed by the display number: it returns the session of the display, or
  absent.
\<close>

definition vnc_find_session :: "vnc_world \<Rightarrow> int \<Rightarrow> vnc_session_s option" where
  "vnc_find_session w d =
     (if 0 \<le> d \<and> nat d < length (g_vnc_sessions w) then g_vnc_sessions w ! nat d else None)"

text \<open>
  Reading \<open>*vtable\<close> as a \<open>struct vnc_fbinfo_s\<close>: the pointer is the index of an
  element of \<open>g_fbinfo\<close>; any other address is outside the array.
\<close>

definition fbinfo_at :: "vnc_world \<Rightarrow> nat \<Rightarrow> vnc_fbinfo_s option" where
  "fbinfo_at w p = (if p < length (g_fbinfo w) then Some (g_fbinfo w ! p) else None)"

subsection \<open>The capability operations\<close>

text \<open>
  \<open>up_getplaneinfo\<close>: the arguments are checked first (by the assertion, then by the
  \<open>if\<close>), then the session of the adapter's display is looked up.
\<close>

definition up_getplaneinfo ::
  "vnc_config \<Rightarrow> vnc_world \<Rightarrow> nat option \<Rightarrow> int \<Rightarrow> fb_planeinfo_s option
     \<Rightarrow> int outcome \<times> vnc_world \<times> fb_planeinfo_s option" where
  "up_getplaneinfo cfg w vtbl planeno pinfo =
     (if \<not> DEBUGASSERT cfg (vtbl \<noteq> None \<and> pinfo \<noteq> None \<and> planeno = 0)
      then (AssertionFailed, w, pinfo)
      else
        (case vtbl of
           None \<Rightarrow> (Returns (- EINVAL), w, pinfo)
         | Some p \<Rightarrow>
             (case pinfo of
                None \<Rightarrow> (Returns (- EINVAL), w, pinfo)
              | Some pi \<Rightarrow>
                  if planeno = 0 then
                    (case fbinfo_at w p of
                       None \<Rightarrow> (OutOfBounds, w, pinfo)
                     | Some fbinfo \<Rightarrow>
                         (case vnc_find_session w (uint (display fbinfo)) of
                            None \<Rightarrow> (Returns (- ENOTCONN), w, pinfo)
                          | Some session \<Rightarrow>
                              if state session = VNCSERVER_SCANNING then
                                (if \<not> DEBUGASSERT cfg (fb session \<noteq> None)
                                 then (AssertionFailed, w, pinfo)
                                 else
                                   (Returns OK, w,
                                    Some (pi\<lparr>fbmem := Some (Session_fb_member (uint (display fbinfo))),
                                             fblen := word_of_nat (stride session)
                                                        * word_of_int (CONFIG_VNCSERVER_SCREENWIDTH cfg),
                                             pinfo_stride := word_of_nat (stride session),
                                             pinfo_bpp := bpp session\<rparr>)))
                              else (Returns (- ENOTCONN), w, pinfo)))
                  else (Returns (- EINVAL), w, pinfo))))"

text \<open>
  \<open>up_getvideoinfo\<close>: the same checks; on success the geometry of the session is
  written into \<open>*vinfo\<close>, with one plane.
\<close>

definition up_getvideoinfo ::
  "vnc_config \<Rightarrow> vnc_world \<Rightarrow> nat option \<Rightarrow> fb_videoinfo_s option
     \<Rightarrow> int outcome \<times> vnc_world \<times> fb_videoinfo_s option" where
  "up_getvideoinfo cfg w vtbl vinfo =
     (if \<not> DEBUGASSERT cfg (vtbl \<noteq> None \<and> vinfo \<noteq> None)
      then (AssertionFailed, w, vinfo)
      else
        (case vtbl of
           None \<Rightarrow> (Returns (- EINVAL), w, vinfo)
         | Some p \<Rightarrow>
             (case vinfo of
                None \<Rightarrow> (Returns (- EINVAL), w, vinfo)
              | Some vi \<Rightarrow>
                  (case fbinfo_at w p of
                     None \<Rightarrow> (OutOfBounds, w, vinfo)
                   | Some fbinfo \<Rightarrow>
                       (case vnc_find_session w (uint (display fbinfo)) of
                          None \<Rightarrow> (Returns (- ENOTCONN), w, vinfo)
                        | Some session \<Rightarrow>
                            if state session = VNCSERVER_SCANNING then
                              (Returns OK, w,
                               Some (vi\<lparr>fmt := colorfmt session,
                                        xres := word_of_int (screen_w session),
                                        yres := word_of_int (screen_h session),
                                        nplanes := 1\<rparr>))
                            else (Returns (- ENOTCONN), w, vinfo))))))"

text \<open>
  The colour map and cursor operations check their arguments and the session and then
  return \<open>OK\<close>: where the entries or the cursor would be copied the source has
  \<open>#warning Missing logic\<close> and no statement. The three tests of \<open>settings->flags\<close>
  in \<open>up_setcursor\<close> guard empty blocks, so they do not show in the model.
\<close>

definition up_getcmap ::
  "vnc_config \<Rightarrow> vnc_world \<Rightarrow> nat option \<Rightarrow> fb_cmap_s option
     \<Rightarrow> int outcome \<times> vnc_world \<times> fb_cmap_s option" where
  "up_getcmap cfg w vtbl cmap =
     (if \<not> DEBUGASSERT cfg (vtbl \<noteq> None \<and> cmap \<noteq> None)
      then (AssertionFailed, w, cmap)
      else
        (case vtbl of
           None \<Rightarrow> (Returns (- EINVAL), w, cmap)
         | Some p \<Rightarrow>
             (case cmap of
                None \<Rightarrow> (Returns (- EINVAL), w, cmap)
              | Some cm \<Rightarrow>
                  (case fbinfo_at w p of
                     None \<Rightarrow> (OutOfBounds, w, cmap)
                   | Some fbinfo \<Rightarrow>
                       (case vnc_find_session w (uint (display fbinfo)) of
                          None \<Rightarrow> (Returns (- ENOTCONN), w, cmap)
                        | Some session \<Rightarrow>
                            if state session = VNCSERVER_SCANNING
                            then (Returns OK, w, cmap)
                            else (Returns (- ENOTCONN), w, cmap))))))"

text \<open>\<open>up_putcmap\<close> takes a pointer to a constant colour map, so it hands nothing back.\<close>

definition up_putcmap ::
  "vnc_config \<Rightarrow> vnc_world \<Rightarrow> nat option \<Rightarrow> fb_cmap_s option
     \<Rightarrow> int outcome \<times> vnc_world" where
  "up_putcmap cfg w vtbl cmap =
     (if \<not> DEBUGASSERT cfg (vtbl \<noteq> None \<and> cmap \<noteq> None)
      then (AssertionFailed, w)
      else
        (case vtbl of
           None \<Rightarrow> (Returns (- EINVAL), w)
         | Some p \<Rightarrow>
             (case cmap of
                None \<Rightarrow> (Returns (- EINVAL), w)
              | Some cm \<Rightarrow>
                  (case fbinfo_at w p of
                     None \<Rightarrow> (OutOfBounds, w)
                   | Some fbinfo \<Rightarrow>
                       (case vnc_find_session w (uint (display fbinfo)) of
                          None \<Rightarrow> (Returns (- ENOTCONN), w)
                        | Some session \<Rightarrow>
                            if state session = VNCSERVER_SCANNING
                            then (Returns OK, w)
                            else (Returns (- ENOTCONN), w))))))"

definition up_getcursor ::
  "vnc_config \<Rightarrow> vnc_world \<Rightarrow> nat option \<Rightarrow> fb_cursorattrib_s option
     \<Rightarrow> int outcome \<times> vnc_world \<times> fb_cursorattrib_s option" where
  "up_getcursor cfg w vtbl attrib =
     (if \<not> DEBUGASSERT cfg (vtbl \<noteq> None \<and> attrib \<noteq> None)
      then (AssertionFailed, w, attrib)
      else
        (case vtbl of
           None \<Rightarrow> (Returns (- EINVAL), w, attrib)
         | Some p \<Rightarrow>
             (case attrib of
                None \<Rightarrow> (Returns (- EINVAL), w, attrib)
              | Some a \<Rightarrow>
                  (case fbinfo_at w p of
                     None \<Rightarrow> (OutOfBounds, w, attrib)
                   | Some fbinfo \<Rightarrow>
                       (case vnc_find_session w (uint (display fbinfo)) of
                          None \<Rightarrow> (Returns (- ENOTCONN), w, attrib)
                        | Some session \<Rightarrow>
                            if state session = VNCSERVER_SCANNING
                            then (Returns OK, w, attrib)
                            else (Returns (- ENOTCONN), w, attrib))))))"

definition up_setcursor ::
  "vnc_config \<Rightarrow> vnc_world \<Rightarrow> nat option \<Rightarrow> fb_setcursor_s option
     \<Rightarrow> int outcome \<times> vnc_world \<times> fb_setcursor_s option" where
  "up_setcursor cfg w vtbl settings =
     (if \<not> DEBUGASSERT cfg (vtbl \<noteq> None \<and> settings \<noteq> None)
      then (AssertionFailed, w, settings)
      else
        (case vtbl of
           None \<Rightarrow> (Returns (- EINVAL), w, settings)
         | Some p \<Rightarrow>
             (case settings of
                None \<Rightarrow> (Returns (- EINVAL), w, settings)
              | Some s \<Rightarrow>
                  (case fbinfo_at w p of
                     None \<Rightarrow> (OutOfBounds, w, settings)
                   | Some fbinfo \<Rightarrow>
                       (case vnc_find_session w (uint (display fbinfo)) of
                          None \<Rightarrow> (Returns (- ENOTCONN), w, settings)
                        | Some session \<Rightarrow>
                            if state session = VNCSERVER_SCANNING
                            then (Returns OK, w, settings)
                            else (Returns (- ENOTCONN), w, settings))))))"

subsection \<open>The entry points\<close>

text \<open>
  \<open>itoa(value, str, 10)\<close>: the decimal text of an integer, with a minus sign for a
  negative one. \<open>digits10\<close> gives the digits of a natural number, the most significant
  first.
\<close>

fun digits10 :: "nat \<Rightarrow> string" where
  "digits10 n =
     (if n < 10 then [''0123456789'' ! n]
      else digits10 (n div 10) @ [''0123456789'' ! (n mod 10)])"

declare digits10.simps [simp del]

definition itoa :: "int \<Rightarrow> string" where
  "itoa v = (if v < 0 then CHR ''-'' # digits10 (nat (- v)) else digits10 (nat v))"

text \<open>
  \<open>up_fbinitialize\<close>: asserts the range of the display, writes the decimal text of
  \<open>display\<close> into \<open>char str[8]\<close>, starts the kernel thread of the server with that
  text as its argument, and returns. \<open>itoa\<close> writes the text and a terminating zero:
  a text of eight characters or more runs over the end of \<open>str\<close>. \<open>pid\<close> is the value
  \<open>kernel_thread\<close> returns. After a successful start the source has the comment "Wait
  for the VNC client to connect and for the RFB to be ready", \<open>#warning Missing logic\<close>,
  and \<open>return OK\<close>. The function itself reads and writes no global data.
\<close>

definition up_fbinitialize ::
  "vnc_config \<Rightarrow> vnc_world \<Rightarrow> int \<Rightarrow> int \<Rightarrow> int outcome \<times> vnc_world" where
  "up_fbinitialize cfg w pid d =
     (if \<not> DEBUGASSERT cfg (8 \<le> d \<and> d < int (RFB_MAX_DISPLAYS cfg))
      then (AssertionFailed, w)
      else if 8 < length (itoa d) + 1 then (OutOfBounds, w)
      else if pid < 0 then (Returns pid, w)
      else (Returns OK, w))"

text \<open>
  The members of the operation table that \<open>up_fbgetvplane\<close> assigns; the colour map
  and cursor members only where the feature is configured.
\<close>

definition set_vtable :: "vnc_config \<Rightarrow> fb_vtable_s \<Rightarrow> fb_vtable_s" where
  "set_vtable cfg vt =
     vt\<lparr>getvideoinfo := Some UP_GETVIDEOINFO,
        getplaneinfo := Some UP_GETPLANEINFO,
        getcmap := (if CONFIG_FB_CMAP cfg then Some UP_GETCMAP else getcmap vt),
        putcmap := (if CONFIG_FB_CMAP cfg then Some UP_PUTCMAP else putcmap vt),
        getcursor := (if CONFIG_FB_HWCURSOR cfg then Some UP_GETCURSOR else getcursor vt),
        setcursor := (if CONFIG_FB_HWCURSOR cfg then Some UP_SETCURSOR else setcursor vt)\<rparr>"

text \<open>
  \<open>up_fbgetvplane\<close>: the state of the session is read through the pointer that
  \<open>vnc_find_session\<close> returned, before anything else; then the plane is tested; then
  \<open>g_fbinfo[display]\<close> is set up on its first use. The result is \<open>NULL\<close> or the
  address of the \<open>vtable\<close> of \<open>g_fbinfo[display]\<close>.
\<close>

definition up_fbgetvplane ::
  "vnc_config \<Rightarrow> vnc_world \<Rightarrow> int \<Rightarrow> int \<Rightarrow> nat option outcome \<times> vnc_world" where
  "up_fbgetvplane cfg w d vplane =
     (case vnc_find_session w d of
        None \<Rightarrow> (NullDereference, w)
      | Some session \<Rightarrow>
          if state session = VNCSERVER_SCANNING then
            (if vplane = 0 then
               (if 0 \<le> d \<and> nat d < length (g_fbinfo w) then
                  (let fbinfo = g_fbinfo w ! nat d in
                   if initialized fbinfo then (Returns (Some (nat d)), w)
                   else
                     (Returns (Some (nat d)),
                      w\<lparr>g_fbinfo := (g_fbinfo w)
                           [nat d := fbinfo\<lparr>vtable := set_vtable cfg (vtable fbinfo),
                                             display := word_of_int d,
                                             initialized := True\<rparr>]\<rparr>))
                else (OutOfBounds, w))
             else (Returns None, w))
          else (Returns None, w))"

text \<open>
  \<open>up_fbuninitialize\<close>: looks the session up, asserts that it exists, takes the
  address of \<open>g_fbinfo[display]\<close> and uses neither (\<open>#warning Missing logic\<close>).
\<close>

definition up_fbuninitialize ::
  "vnc_config \<Rightarrow> vnc_world \<Rightarrow> int \<Rightarrow> unit outcome \<times> vnc_world" where
  "up_fbuninitialize cfg w d =
     (if \<not> DEBUGASSERT cfg (vnc_find_session w d \<noteq> None)
      then (AssertionFailed, w)
      else (Returns (), w))"

text \<open>
  \<open>connected\<close>: the test every capability operation makes of the session it has
  looked up (\<open>session == NULL || session->state != VNCSERVER_SCANNING\<close> is its
  negation).
\<close>

definition connected :: "vnc_world \<Rightarrow> int \<Rightarrow> bool" where
  "connected w d =
     (case vnc_find_session w d of
        None \<Rightarrow> False
      | Some session \<Rightarrow> state session = VNCSERVER_SCANNING)"

subsection \<open>Concrete configurations and global data\<close>

text \<open>
  One display, a configured screen width of 320, assertions compiled out; and the same
  with assertions compiled in.
\<close>

definition release_config :: vnc_config where
  "release_config =
     \<lparr>RFB_MAX_DISPLAYS = 1, CONFIG_VNCSERVER_SCREENWIDTH = 320, CONFIG_DEBUG = False,
      CONFIG_FB_CMAP = True, CONFIG_FB_HWCURSOR = True\<rparr>"

definition debug_config :: vnc_config where
  "debug_config =
     \<lparr>RFB_MAX_DISPLAYS = 1, CONFIG_VNCSERVER_SCREENWIDTH = 320, CONFIG_DEBUG = True,
      CONFIG_FB_CMAP = True, CONFIG_FB_HWCURSOR = True\<rparr>"

text \<open>The zero-initialised element of \<open>g_fbinfo\<close>, and the zero cursor data.\<close>

definition zero_vtable :: fb_vtable_s where
  "zero_vtable =
     \<lparr>getvideoinfo = None, getplaneinfo = None, getcmap = None, putcmap = None,
      getcursor = None, setcursor = None\<rparr>"

definition zero_fbinfo :: vnc_fbinfo_s where
  "zero_fbinfo = \<lparr>vtable = zero_vtable, initialized = False, display = 0\<rparr>"

definition zero_cpos :: fb_cursorpos_s where
  "zero_cpos = \<lparr>cursor_x = 0, cursor_y = 0\<rparr>"

definition zero_csize :: fb_cursorsize_s where
  "zero_csize = \<lparr>cursor_h = 0, cursor_w = 0\<rparr>"

text \<open>
  A session of 320 by 240 pixels of 16 bits, 640 bytes to the row, in the state
  \<open>VNCSERVER_SCANNING\<close>; and the same session still negotiating.
\<close>

definition session_320x240 :: vnc_session_s where
  "session_320x240 =
     \<lparr>state = VNCSERVER_SCANNING, colorfmt = 11, bpp = 16, stride = 640,
      screen_w = 320, screen_h = 240, fb = Some 0\<rparr>"

definition negotiating_session :: vnc_session_s where
  "negotiating_session = session_320x240\<lparr>state := VNCSERVER_NEGOTIATING\<rparr>"

text \<open>
  Three worlds of one display: no session yet; a session that is negotiating; a
  session that is ready.
\<close>

definition idle_world :: vnc_world where
  "idle_world =
     \<lparr>g_vnc_sessions = [None], g_fbinfo = [zero_fbinfo],
      g_cpos = zero_cpos, g_csize = zero_csize\<rparr>"

definition negotiating_world :: vnc_world where
  "negotiating_world = idle_world\<lparr>g_vnc_sessions := [Some negotiating_session]\<rparr>"

definition ready_world :: vnc_world where
  "ready_world = idle_world\<lparr>g_vnc_sessions := [Some session_320x240]\<rparr>"

text \<open>
  The ready world after the adapter of display 0 has been set up, with the colour map
  and the cursor configured.
\<close>

definition bound_fbinfo :: vnc_fbinfo_s where
  "bound_fbinfo =
     \<lparr>vtable =
        \<lparr>getvideoinfo = Some UP_GETVIDEOINFO, getplaneinfo = Some UP_GETPLANEINFO,
         getcmap = Some UP_GETCMAP, putcmap = Some UP_PUTCMAP,
         getcursor = Some UP_GETCURSOR, setcursor = Some UP_SETCURSOR\<rparr>,
      initialized = True, display = 0\<rparr>"

definition bound_world :: vnc_world where
  "bound_world = ready_world\<lparr>g_fbinfo := [bound_fbinfo]\<rparr>"

text \<open>Structures a caller passes in.\<close>

definition zero_planeinfo :: fb_planeinfo_s where
  "zero_planeinfo = \<lparr>fbmem = None, fblen = 0, pinfo_stride = 0, pinfo_bpp = 0\<rparr>"

definition zero_videoinfo :: fb_videoinfo_s where
  "zero_videoinfo = \<lparr>fmt = 0, xres = 0, yres = 0, nplanes = 0\<rparr>"

definition zero_cmap :: fb_cmap_s where
  "zero_cmap = \<lparr>first = 0, len = 1, red = [0], green = [0], blue = [0]\<rparr>"

definition white_cmap :: fb_cmap_s where
  "white_cmap = \<lparr>first = 0, len = 1, red = [255], green = [255], blue = [255]\<rparr>"

definition zero_cursorattrib :: fb_cursorattrib_s where
  "zero_cursorattrib =
     \<lparr>attrib_pos = zero_cpos, attrib_mxsize = zero_csize, attrib_size = zero_csize\<rparr>"

definition zero_setcursor :: fb_setcursor_s where
  "zero_setcursor = \<lparr>flags = 0, setcursor_pos = zero_cpos, setcursor_size = zero_csize\<rparr>"

section \<open>Properties\<close>

lemmas example_defs =
  release_config_def debug_config_def zero_vtable_def zero_fbinfo_def zero_cpos_def
  zero_csize_def session_320x240_def negotiating_session_def idle_world_def
  negotiating_world_def ready_world_def zero_planeinfo_def zero_videoinfo_def
  zero_cmap_def white_cmap_def zero_cursorattrib_def zero_setcursor_def

lemmas errno_defs = OK_def EINVAL_def ENOTCONN_def

subsection \<open>The session directory in the concrete worlds\<close>

lemma find_session_idle_world: "vnc_find_session idle_world d = None"
  by (simp add: vnc_find_session_def idle_world_def nat_less_iff)

lemma find_session_negotiating_world:
  "vnc_find_session negotiating_world 0 = Some negotiating_session"
  by (simp add: vnc_find_session_def negotiating_world_def idle_world_def)

lemma find_session_ready_world:
  "vnc_find_session ready_world 0 = Some session_320x240"
  by (simp add: vnc_find_session_def ready_world_def idle_world_def)

lemma fbinfo_at_worlds:
  "fbinfo_at idle_world 0 = Some zero_fbinfo"
  "fbinfo_at negotiating_world 0 = Some zero_fbinfo"
  "fbinfo_at ready_world 0 = Some zero_fbinfo"
  by (simp_all add: fbinfo_at_def idle_world_def negotiating_world_def ready_world_def)

lemma display_zero_fbinfo: "uint (display zero_fbinfo) = 0"
  by (simp add: zero_fbinfo_def)

lemma find_session_out_of_range:
  "d < 0 \<or> int (length (g_vnc_sessions w)) \<le> d \<Longrightarrow> vnc_find_session w d = None"
  by (auto simp add: vnc_find_session_def)

lemma find_session_g_fbinfo_update:
  "vnc_find_session (w\<lparr>g_fbinfo := xs\<rparr>) d = vnc_find_session w d"
  by (simp add: vnc_find_session_def)

subsection \<open>The text of a display number and the eight bytes of \<open>str\<close>\<close>

lemma length_digits10_pos: "0 < length (digits10 n)"
  by (subst digits10.simps) simp

lemma length_digits10_small: "n < 10 \<Longrightarrow> length (digits10 n) = 1"
  by (subst digits10.simps) simp

lemma length_digits10_step:
  "\<not> n < 10 \<Longrightarrow> length (digits10 n) = Suc (length (digits10 (n div 10)))"
  by (subst digits10.simps) simp

lemma length_digits10: "(length (digits10 n) \<le> Suc k) = (n < 10 ^ Suc k)"
proof (induction k arbitrary: n)
  case 0
  show ?case
  proof (cases "n < 10")
    case True
    then show ?thesis
      by (simp add: length_digits10_small)
  next
    case False
    with length_digits10_pos [of "n div 10"] show ?thesis
      by (simp add: length_digits10_step)
  qed
next
  case (Suc k)
  show ?case
  proof (cases "n < 10")
    case True
    have "(10::nat) * 1 \<le> 100 * 10 ^ k"
      by (rule mult_le_mono) simp_all
    with True have "n < 100 * 10 ^ k"
      by linarith
    with True show ?thesis
      by (simp add: length_digits10_small)
  next
    case False
    have "(n div 10 < 10 ^ Suc k) = (n < 10 ^ Suc (Suc k))"
      by (simp add: div_less_iff_less_mult mult.commute)
    with False Suc [of "n div 10"] show ?thesis
      by (simp add: length_digits10_step)
  qed
qed

text \<open>
  The text and its terminating zero fit into \<open>str\<close> exactly for the displays from
  \<open>-999999\<close> to \<open>9999999\<close>.
\<close>

lemma itoa_fits: "(length (itoa v) < 8) = (- 999999 \<le> v \<and> v \<le> 9999999)"
proof (cases "v < 0")
  case True
  then have "(length (itoa v) < 8) = (length (digits10 (nat (- v))) \<le> Suc 5)"
    by (auto simp add: itoa_def)
  also have "\<dots> = (nat (- v) < 10 ^ Suc 5)"
    by (rule length_digits10)
  also have "\<dots> = (- 999999 \<le> v \<and> v \<le> 9999999)"
    using True by auto
  finally show ?thesis .
next
  case False
  then have "(length (itoa v) < 8) = (length (digits10 (nat v)) \<le> Suc 6)"
    by (auto simp add: itoa_def)
  also have "\<dots> = (nat v < 10 ^ Suc 6)"
    by (rule length_digits10)
  also have "\<dots> = (- 999999 \<le> v \<and> v \<le> 9999999)"
    using False by auto
  finally show ?thesis .
qed

lemma itoa_examples: "itoa 0 = ''0''" "itoa (- 1) = ''-1''"
  by (simp_all add: itoa_def digits10.simps)

text \<open>
  A display whose text does not fit: once the assertion lets execution go on,
  \<open>up_fbinitialize\<close> writes past the end of \<open>str\<close>, before \<open>kernel_thread\<close> is called.
\<close>

lemma up_fbinitialize_overrun:
  assumes "DEBUGASSERT cfg (8 \<le> d \<and> d < int (RFB_MAX_DISPLAYS cfg))"
    and "d < - 999999 \<or> 9999999 < d"
  shows "fst (up_fbinitialize cfg w pid d) = OutOfBounds"
proof -
  from assms(2) have "\<not> length (itoa d) < 8"
    by (simp add: itoa_fits not_le)
  with assms(1) show ?thesis
    by (simp add: up_fbinitialize_def)
qed

subsection \<open>The plane information of a ready session\<close>

text \<open>
  What \<open>up_getplaneinfo\<close> writes for a ready session: the length is the stride times
  the configured screen width, in 32 bits.
\<close>

lemma up_getplaneinfo_ready:
  assumes "fbinfo_at w p = Some fbinfo"
    and "vnc_find_session w (uint (display fbinfo)) = Some session"
    and "state session = VNCSERVER_SCANNING"
    and "DEBUGASSERT cfg (fb session \<noteq> None)"
  shows "up_getplaneinfo cfg w (Some p) 0 (Some pi) =
           (Returns OK, w,
            Some (pi\<lparr>fbmem := Some (Session_fb_member (uint (display fbinfo))),
                     fblen := word_of_nat (stride session)
                                * word_of_int (CONFIG_VNCSERVER_SCREENWIDTH cfg),
                     pinfo_stride := word_of_nat (stride session),
                     pinfo_bpp := bpp session\<rparr>))"
  using assms by (simp add: up_getplaneinfo_def DEBUGASSERT_def)

text \<open>
  C1. The specification: for a ready session \<open>up_getplaneinfo\<close> with plane 0 returns the length
  stride times height, 153600 for the session of 320 by 240 pixels with stride 640.
  The code at that session, with the configured screen width 320: the call succeeds and
  the length it returns is 204800, the stride times the width, while the stride times
  the height of the session is 153600.
\<close>

theorem up_getplaneinfo_fblen_320x240:
  "up_getplaneinfo release_config ready_world (Some 0) 0 (Some zero_planeinfo) =
     (Returns OK, ready_world,
      Some \<lparr>fbmem = Some (Session_fb_member 0), fblen = 204800,
            pinfo_stride = 640, pinfo_bpp = 16\<rparr>)
   \<and> stride session_320x240 * nat (screen_h session_320x240) = 153600"
  by (simp add: up_getplaneinfo_def DEBUGASSERT_def fbinfo_at_def vnc_find_session_def
      example_defs)

subsection \<open>Starting a display\<close>

lemma up_fbinitialize_world: "snd (up_fbinitialize cfg w pid d) = w"
  by (simp add: up_fbinitialize_def)

text \<open>
  C2. The specification: whenever \<open>up_fbinitialize\<close> returns success, the session of the
  display exists and is ready. The code with assertions compiled out, display 0, the
  thread started with pid 1 and no session in the directory: the call returns \<open>OK\<close>,
  and the directory still has no session for display 0.
\<close>

theorem up_fbinitialize_ok_without_session:
  "up_fbinitialize release_config idle_world 1 0 = (Returns OK, idle_world)
   \<and> vnc_find_session idle_world 0 = None
   \<and> connected idle_world 0 = False"
  by (simp add: up_fbinitialize_def DEBUGASSERT_def connected_def find_session_idle_world
      release_config_def itoa_examples)

text \<open>
  C7. If the start of the kernel thread fails (\<open>pid < 0\<close>), \<open>up_fbinitialize\<close> returns
  the negative value of \<open>kernel_thread\<close>, and the session directory and the adapters
  are as they were. The call of \<open>kernel_thread\<close> is reached when the assertion on
  entry lets execution go on and the text of the display, with its terminating zero,
  fits into \<open>str\<close>.
\<close>

theorem up_fbinitialize_spawn_failure:
  assumes "DEBUGASSERT cfg (8 \<le> d \<and> d < int (RFB_MAX_DISPLAYS cfg))"
    and "length (itoa d) < 8"
    and "pid < 0"
  shows "up_fbinitialize cfg w pid d = (Returns pid, w)"
  using assms by (simp add: up_fbinitialize_def)

theorem up_fbinitialize_spawn_failure_witness:
  "DEBUGASSERT release_config (8 \<le> (0::int) \<and> (0::int) < int (RFB_MAX_DISPLAYS release_config))
   \<and> length (itoa 0) < 8
   \<and> (- 12 :: int) < 0
   \<and> up_fbinitialize release_config ready_world (- 12) 0 = (Returns (- 12), ready_world)"
proof -
  have a: "DEBUGASSERT release_config (8 \<le> (0::int) \<and> (0::int) < int (RFB_MAX_DISPLAYS release_config))"
    by (simp add: DEBUGASSERT_def release_config_def)
  have f: "length (itoa 0) < 8"
    by (simp add: itoa_examples)
  have b: "(- 12 :: int) < 0"
    by simp
  from up_fbinitialize_spawn_failure [OF a f b, of ready_world] a f b show ?thesis
    by simp
qed

text \<open>
  C3. The specification: for a display outside \<open>[0, N)\<close>, \<open>up_fbinitialize\<close> and
  \<open>up_fbgetvplane\<close> fail with \<open>-EINVAL\<close> and touch no storage. The code has no test
  of the display that returns \<open>-EINVAL\<close>: with assertions compiled out and display
  \<open>-1\<close>, \<open>up_fbinitialize\<close> starts the thread and returns \<open>OK\<close>.
\<close>

theorem up_fbinitialize_out_of_range_counterexample:
  "\<not> (0 \<le> (- 1 :: int) \<and> (- 1 :: int) < int (RFB_MAX_DISPLAYS release_config))
   \<and> up_fbinitialize release_config idle_world 1 (- 1) = (Returns OK, idle_world)
   \<and> OK \<noteq> - EINVAL"
  by (simp add: up_fbinitialize_def DEBUGASSERT_def release_config_def errno_defs
      itoa_examples)

text \<open>
  C3, as the code has it. For a display outside \<open>[0, N)\<close>, \<open>up_fbinitialize\<close> has no
  test that returns \<open>-EINVAL\<close>: with assertions compiled in it stops in its assertion;
  with assertions compiled out, and the text of the display fitting into \<open>str\<close>, it
  starts the thread and returns \<open>OK\<close>, or the negative value of \<open>kernel_thread\<close>. In
  both cases the global data is as it was. (Nothing is said here of \<open>up_fbgetvplane\<close>
  for such a display, nor of a display whose text runs over \<open>str\<close>.)
\<close>

theorem out_of_range_display:
  assumes "d < 0 \<or> int (RFB_MAX_DISPLAYS cfg) \<le> d"
  shows "(CONFIG_DEBUG cfg \<longrightarrow> up_fbinitialize cfg w pid d = (AssertionFailed, w))
       \<and> (\<not> CONFIG_DEBUG cfg \<and> length (itoa d) < 8 \<longrightarrow>
            up_fbinitialize cfg w pid d = (Returns (if pid < 0 then pid else OK), w))"
proof -
  from assms have "\<not> (8 \<le> d \<and> d < int (RFB_MAX_DISPLAYS cfg))"
    by auto
  then show ?thesis
    by (simp add: up_fbinitialize_def DEBUGASSERT_def)
qed

theorem out_of_range_display_witness:
  "((- 1 :: int) < 0 \<or> int (RFB_MAX_DISPLAYS release_config) \<le> - 1)
   \<and> CONFIG_DEBUG debug_config
   \<and> up_fbinitialize debug_config idle_world 1 (- 1) = (AssertionFailed, idle_world)
   \<and> \<not> CONFIG_DEBUG release_config
   \<and> length (itoa (- 1)) < 8
   \<and> up_fbinitialize release_config idle_world 1 (- 1) = (Returns OK, idle_world)
   \<and> up_fbinitialize release_config idle_world (- 12) (- 1) = (Returns (- 12), idle_world)"
proof -
  have a: "(- 1 :: int) < 0 \<or> int (RFB_MAX_DISPLAYS release_config) \<le> - 1"
    by simp
  have a': "(- 1 :: int) < 0 \<or> int (RFB_MAX_DISPLAYS debug_config) \<le> - 1"
    by simp
  have c: "\<not> CONFIG_DEBUG release_config"
    by (simp add: release_config_def)
  have c': "CONFIG_DEBUG debug_config"
    by (simp add: debug_config_def)
  have f: "length (itoa (- 1)) < 8"
    by (simp add: itoa_examples)
  from out_of_range_display [OF a, of idle_world 1]
    out_of_range_display [OF a, of idle_world "- 12"]
    out_of_range_display [OF a', of idle_world 1] a c c' f
  show ?thesis
    by simp
qed

subsection \<open>Binding an adapter\<close>

text \<open>
  C10. For a display whose session exists and is not in the state
  \<open>VNCSERVER_SCANNING\<close>, \<open>up_fbgetvplane\<close> with plane 0 returns \<open>NULL\<close> and leaves
  \<open>g_fbinfo\<close> and everything else as it was; whatever the plane, it returns no adapter.
\<close>

theorem up_fbgetvplane_not_ready:
  assumes "vnc_find_session w d = Some session"
    and "state session \<noteq> VNCSERVER_SCANNING"
  shows "up_fbgetvplane cfg w d 0 = (Returns None, w)
       \<and> fst (up_fbgetvplane cfg w d vplane) \<noteq> Returns (Some p)"
  using assms by (simp add: up_fbgetvplane_def)

theorem up_fbgetvplane_not_ready_witness:
  "vnc_find_session negotiating_world 0 = Some negotiating_session
   \<and> state negotiating_session \<noteq> VNCSERVER_SCANNING
   \<and> up_fbgetvplane release_config negotiating_world 0 0 = (Returns None, negotiating_world)
   \<and> fst (up_fbgetvplane release_config negotiating_world 0 1) \<noteq> Returns (Some 0)"
proof -
  have b: "state negotiating_session \<noteq> VNCSERVER_SCANNING"
    by (simp add: negotiating_session_def)
  from up_fbgetvplane_not_ready [OF find_session_negotiating_world b, of release_config 1 0]
    find_session_negotiating_world b
  show ?thesis
    by simp
qed

text \<open>
  C9. \<open>up_fbgetvplane\<close> dereferences \<open>NULL\<close> exactly when the directory has no session
  for the display, whatever the plane (the state is read before the plane is tested);
  it has then no result at all. \<open>up_fbuninitialize\<close> states the same requirement as an
  assertion: it fails exactly when assertions are compiled in and there is no session.
\<close>

theorem session_must_exist:
  "(fst (up_fbgetvplane cfg w d vplane) = NullDereference) = (vnc_find_session w d = None)
   \<and> (fst (up_fbuninitialize cfg w d) = AssertionFailed)
       = (CONFIG_DEBUG cfg \<and> vnc_find_session w d = None)"
  by (simp add: up_fbgetvplane_def up_fbuninitialize_def DEBUGASSERT_def Let_def
      split: option.splits)

text \<open>
  C5. The specification: for every display in range, \<open>up_fbgetvplane\<close> with plane 0 returns
  the same adapter twice. The code tests the state of the session first: for display 0
  of one, with a session that is still negotiating, plane 0 gives \<open>NULL\<close> and
  \<open>g_fbinfo[0]\<close> stays uninitialised.
\<close>

theorem up_fbgetvplane_negotiating_counterexample:
  "(0::int) < int (RFB_MAX_DISPLAYS release_config)
   \<and> up_fbgetvplane release_config negotiating_world 0 0 = (Returns None, negotiating_world)
   \<and> initialized (g_fbinfo negotiating_world ! 0) = False"
proof -
  have "up_fbgetvplane release_config negotiating_world 0 0 = (Returns None, negotiating_world)"
    by (simp add: up_fbgetvplane_def find_session_negotiating_world negotiating_session_def)
  moreover have "initialized (g_fbinfo negotiating_world ! 0) = False"
    by (simp add: negotiating_world_def idle_world_def zero_fbinfo_def)
  ultimately show ?thesis
    by (simp add: release_config_def)
qed

text \<open>
  C5, as the code has it. For a display in range whose session exists: if the session
  is in the state \<open>VNCSERVER_SCANNING\<close>, plane 0 returns the address of the \<open>vtable\<close>
  of \<open>g_fbinfo[display]\<close>; an adapter that is already initialised is left as it is,
  and one that is not gets its operation table, its display number and the
  \<open>initialized\<close> mark, nothing else in the global data being changed; either way the
  adapter is initialised afterwards, and a second call returns the same address and
  changes nothing (the adapter is set up once). A plane other than 0 returns \<open>NULL\<close>
  and changes nothing, whatever the state.
\<close>

theorem up_fbgetvplane_same_adapter:
  assumes "vnc_find_session w d = Some session"
    and "0 \<le> d"
    and "d < int (RFB_MAX_DISPLAYS cfg)"
    and "length (g_fbinfo w) = RFB_MAX_DISPLAYS cfg"
  shows "(state session = VNCSERVER_SCANNING \<longrightarrow>
            up_fbgetvplane cfg w d 0 =
              (Returns (Some (nat d)),
               if initialized (g_fbinfo w ! nat d) then w
               else w\<lparr>g_fbinfo := (g_fbinfo w)
                      [nat d := (g_fbinfo w ! nat d)
                         \<lparr>vtable := set_vtable cfg (vtable (g_fbinfo w ! nat d)),
                          display := word_of_int d,
                          initialized := True\<rparr>]\<rparr>)
          \<and> initialized (g_fbinfo (snd (up_fbgetvplane cfg w d 0)) ! nat d)
          \<and> (\<not> initialized (g_fbinfo w ! nat d) \<longrightarrow>
                display (g_fbinfo (snd (up_fbgetvplane cfg w d 0)) ! nat d) = word_of_int d
              \<and> getvideoinfo (vtable (g_fbinfo (snd (up_fbgetvplane cfg w d 0)) ! nat d))
                  = Some UP_GETVIDEOINFO
              \<and> getplaneinfo (vtable (g_fbinfo (snd (up_fbgetvplane cfg w d 0)) ! nat d))
                  = Some UP_GETPLANEINFO)
          \<and> g_vnc_sessions (snd (up_fbgetvplane cfg w d 0)) = g_vnc_sessions w
          \<and> fst (up_fbgetvplane cfg w d 0) = Returns (Some (nat d))
          \<and> up_fbgetvplane cfg (snd (up_fbgetvplane cfg w d 0)) d 0
              = (Returns (Some (nat d)), snd (up_fbgetvplane cfg w d 0)))
       \<and> (vplane \<noteq> 0 \<longrightarrow> up_fbgetvplane cfg w d vplane = (Returns None, w))"
proof -
  from assms(2,3,4) have r: "nat d < length (g_fbinfo w)"
    by simp
  have plane: "vplane \<noteq> 0 \<longrightarrow> up_fbgetvplane cfg w d vplane = (Returns None, w)"
    using assms(1) by (simp add: up_fbgetvplane_def)
  define w1 where "w1 = w\<lparr>g_fbinfo := (g_fbinfo w)
      [nat d := (g_fbinfo w ! nat d)\<lparr>vtable := set_vtable cfg (vtable (g_fbinfo w ! nat d)),
                                      display := word_of_int d,
                                      initialized := True\<rparr>]\<rparr>"
  have ready: "up_fbgetvplane cfg w d 0 =
              (Returns (Some (nat d)), if initialized (g_fbinfo w ! nat d) then w else w1)
          \<and> initialized (g_fbinfo (snd (up_fbgetvplane cfg w d 0)) ! nat d)
          \<and> (\<not> initialized (g_fbinfo w ! nat d) \<longrightarrow>
                display (g_fbinfo (snd (up_fbgetvplane cfg w d 0)) ! nat d) = word_of_int d
              \<and> getvideoinfo (vtable (g_fbinfo (snd (up_fbgetvplane cfg w d 0)) ! nat d))
                  = Some UP_GETVIDEOINFO
              \<and> getplaneinfo (vtable (g_fbinfo (snd (up_fbgetvplane cfg w d 0)) ! nat d))
                  = Some UP_GETPLANEINFO)
          \<and> g_vnc_sessions (snd (up_fbgetvplane cfg w d 0)) = g_vnc_sessions w
          \<and> fst (up_fbgetvplane cfg w d 0) = Returns (Some (nat d))
          \<and> up_fbgetvplane cfg (snd (up_fbgetvplane cfg w d 0)) d 0
              = (Returns (Some (nat d)), snd (up_fbgetvplane cfg w d 0))"
    if s: "state session = VNCSERVER_SCANNING"
  proof (cases "initialized (g_fbinfo w ! nat d)")
    case True
    with assms(1,2) r s have "up_fbgetvplane cfg w d 0 = (Returns (Some (nat d)), w)"
      by (simp add: up_fbgetvplane_def)
    with True show ?thesis
      by simp
  next
    case False
    from False assms(1,2) r s have first: "up_fbgetvplane cfg w d 0 = (Returns (Some (nat d)), w1)"
      by (simp add: up_fbgetvplane_def w1_def Let_def)
    have "vnc_find_session w1 d = Some session"
      using assms(1) by (simp add: w1_def find_session_g_fbinfo_update)
    moreover have len: "nat d < length (g_fbinfo w1)"
      and ini: "initialized (g_fbinfo w1 ! nat d)"
      using r by (simp_all add: w1_def)
    ultimately have second: "up_fbgetvplane cfg w1 d 0 = (Returns (Some (nat d)), w1)"
      using assms(2) s by (simp add: up_fbgetvplane_def)
    have set: "display (g_fbinfo w1 ! nat d) = word_of_int d"
      "getvideoinfo (vtable (g_fbinfo w1 ! nat d)) = Some UP_GETVIDEOINFO"
      "getplaneinfo (vtable (g_fbinfo w1 ! nat d)) = Some UP_GETPLANEINFO"
      "g_vnc_sessions w1 = g_vnc_sessions w"
      using r by (simp_all add: w1_def set_vtable_def)
    from False first second ini set show ?thesis
      by simp
  qed
  from plane ready show ?thesis
    unfolding w1_def by blast
qed

theorem up_fbgetvplane_same_adapter_witness:
  "vnc_find_session ready_world 0 = Some session_320x240
   \<and> (0::int) \<le> 0 \<and> (0::int) < int (RFB_MAX_DISPLAYS release_config)
   \<and> length (g_fbinfo ready_world) = RFB_MAX_DISPLAYS release_config
   \<and> state session_320x240 = VNCSERVER_SCANNING
   \<and> \<not> initialized (g_fbinfo ready_world ! nat 0)
   \<and> (1::int) \<noteq> 0
   \<and> up_fbgetvplane release_config ready_world 0 0 = (Returns (Some 0), bound_world)
   \<and> up_fbgetvplane release_config bound_world 0 0 = (Returns (Some 0), bound_world)
   \<and> up_fbgetvplane release_config ready_world 0 1 = (Returns None, ready_world)"
proof -
  have b: "(0::int) \<le> 0"
    by simp
  have c: "(0::int) < int (RFB_MAX_DISPLAYS release_config)"
    by (simp add: release_config_def)
  have e: "length (g_fbinfo ready_world) = RFB_MAX_DISPLAYS release_config"
    by (simp add: ready_world_def idle_world_def release_config_def)
  have s: "state session_320x240 = VNCSERVER_SCANNING"
    by (simp add: session_320x240_def)
  have i: "\<not> initialized (g_fbinfo ready_world ! nat 0)"
    by (simp add: ready_world_def idle_world_def zero_fbinfo_def)
  have w: "ready_world\<lparr>g_fbinfo := (g_fbinfo ready_world)
             [0 := (g_fbinfo ready_world ! 0)
                \<lparr>vtable := set_vtable release_config (vtable (g_fbinfo ready_world ! 0)),
                 display := word_of_int 0,
                 initialized := True\<rparr>]\<rparr> = bound_world"
    by (simp add: bound_world_def bound_fbinfo_def ready_world_def idle_world_def
        zero_fbinfo_def zero_vtable_def set_vtable_def release_config_def)
  note t = up_fbgetvplane_same_adapter [OF find_session_ready_world b c e, of 1]
  from t s have "up_fbgetvplane release_config ready_world 0 0 =
      (Returns (Some (nat 0)),
       if initialized (g_fbinfo ready_world ! nat 0) then ready_world
       else ready_world\<lparr>g_fbinfo := (g_fbinfo ready_world)
             [nat 0 := (g_fbinfo ready_world ! nat 0)
                \<lparr>vtable := set_vtable release_config (vtable (g_fbinfo ready_world ! nat 0)),
                 display := word_of_int 0,
                 initialized := True\<rparr>]\<rparr>)"
    by blast
  with i have "up_fbgetvplane release_config ready_world 0 0 =
      (Returns (Some (nat 0)),
       ready_world\<lparr>g_fbinfo := (g_fbinfo ready_world)
             [nat 0 := (g_fbinfo ready_world ! nat 0)
                \<lparr>vtable := set_vtable release_config (vtable (g_fbinfo ready_world ! nat 0)),
                 display := word_of_int 0,
                 initialized := True\<rparr>]\<rparr>)"
    by (simp only: if_False)
  then have first: "up_fbgetvplane release_config ready_world 0 0 = (Returns (Some 0), bound_world)"
    unfolding nat_0 by (simp only: w)
  from t s have "up_fbgetvplane release_config
        (snd (up_fbgetvplane release_config ready_world 0 0)) 0 0
      = (Returns (Some (nat 0)), snd (up_fbgetvplane release_config ready_world 0 0))"
    by blast
  with first have second:
    "up_fbgetvplane release_config bound_world 0 0 = (Returns (Some 0), bound_world)"
    by simp
  from t have third: "up_fbgetvplane release_config ready_world 0 1 = (Returns None, ready_world)"
    by simp
  from first second third find_session_ready_world c e s i show ?thesis
    by simp
qed

subsection \<open>The colour map\<close>

lemma up_getcmap_keeps_cmap: "snd (snd (up_getcmap cfg w vt cmap)) = cmap"
  by (simp add: up_getcmap_def split: option.splits)

text \<open>
  C6. The specification: a successful \<open>up_putcmap\<close> followed by \<open>up_getcmap\<close> over the same
  range returns the entries written. The code on the ready session: writing one white
  entry at index 0 succeeds and changes nothing; reading index 0 back into a zeroed
  colour map succeeds and leaves it zeroed, so the entry read is not the entry written.
\<close>

theorem up_putcmap_up_getcmap_no_roundtrip:
  "up_putcmap release_config ready_world (Some 0) (Some white_cmap) = (Returns OK, ready_world)
   \<and> up_getcmap release_config ready_world (Some 0) (Some zero_cmap)
       = (Returns OK, ready_world, Some zero_cmap)
   \<and> first zero_cmap = first white_cmap \<and> len zero_cmap = len white_cmap
   \<and> red zero_cmap \<noteq> red white_cmap"
  by (simp add: up_putcmap_def up_getcmap_def DEBUGASSERT_def fbinfo_at_worlds
      display_zero_fbinfo find_session_ready_world session_320x240_def release_config_def
      zero_cmap_def white_cmap_def)

subsection \<open>Capability calls that do not succeed\<close>




text \<open>
  An invalid argument: the call stops in the assertion when assertions are compiled in,
  and returns \<open>-EINVAL\<close> otherwise. The global data has no part in the result.
\<close>

lemma invalid_argument_results:
  "vt = None \<or> vinfo = None \<Longrightarrow>
     up_getvideoinfo cfg w vt vinfo =
       (if CONFIG_DEBUG cfg then AssertionFailed else Returns (- EINVAL), w, vinfo)"
  "vt = None \<or> pinfo = None \<or> planeno \<noteq> 0 \<Longrightarrow>
     up_getplaneinfo cfg w vt planeno pinfo =
       (if CONFIG_DEBUG cfg then AssertionFailed else Returns (- EINVAL), w, pinfo)"
  "vt = None \<or> cmap = None \<Longrightarrow>
     up_getcmap cfg w vt cmap =
       (if CONFIG_DEBUG cfg then AssertionFailed else Returns (- EINVAL), w, cmap)"
  "vt = None \<or> cmap = None \<Longrightarrow>
     up_putcmap cfg w vt cmap =
       (if CONFIG_DEBUG cfg then AssertionFailed else Returns (- EINVAL), w)"
  "vt = None \<or> attrib = None \<Longrightarrow>
     up_getcursor cfg w vt attrib =
       (if CONFIG_DEBUG cfg then AssertionFailed else Returns (- EINVAL), w, attrib)"
  "vt = None \<or> settings = None \<Longrightarrow>
     up_setcursor cfg w vt settings =
       (if CONFIG_DEBUG cfg then AssertionFailed else Returns (- EINVAL), w, settings)"
  by (auto simp add: up_getvideoinfo_def up_getplaneinfo_def up_getcmap_def up_putcmap_def
      up_getcursor_def up_setcursor_def DEBUGASSERT_def split: option.splits)




text \<open>
  C8. The specification: a null pointer, or for \<open>up_getplaneinfo\<close> a plane other than 0, makes
  the call return \<open>-EINVAL\<close>. With assertions compiled in, the call stops in
  \<open>DEBUGASSERT\<close> instead: here \<open>up_getvideoinfo\<close> with a null \<open>vtable\<close>.
\<close>

theorem up_getvideoinfo_null_vtable_counterexample:
  "up_getvideoinfo debug_config ready_world None (Some zero_videoinfo)
     = (AssertionFailed, ready_world, Some zero_videoinfo)
   \<and> AssertionFailed \<noteq> (Returns (- EINVAL) :: int outcome)"
  by (simp add: up_getvideoinfo_def DEBUGASSERT_def debug_config_def)

text \<open>
  C8, as the code has it. For each of the six operations, a null \<open>vtable\<close> or a null
  argument structure, and for \<open>up_getplaneinfo\<close> also a plane other than 0, makes the
  call return \<open>-EINVAL\<close> when assertions are compiled out, and stop in the assertion
  when they are compiled in. Either way the result is the same for every content of
  the global data (no session is looked up), and the global data and the caller's
  structure are as they were.
\<close>

theorem capability_invalid_argument:
  "(vt = None \<or> vinfo = None \<longrightarrow>
      up_getvideoinfo cfg w vt vinfo =
        (if CONFIG_DEBUG cfg then AssertionFailed else Returns (- EINVAL), w, vinfo))
   \<and> (vt = None \<or> pinfo = None \<or> planeno \<noteq> 0 \<longrightarrow>
      up_getplaneinfo cfg w vt planeno pinfo =
        (if CONFIG_DEBUG cfg then AssertionFailed else Returns (- EINVAL), w, pinfo))
   \<and> (vt = None \<or> cmap = None \<longrightarrow>
      up_getcmap cfg w vt cmap =
        (if CONFIG_DEBUG cfg then AssertionFailed else Returns (- EINVAL), w, cmap))
   \<and> (vt = None \<or> cmap = None \<longrightarrow>
      up_putcmap cfg w vt cmap =
        (if CONFIG_DEBUG cfg then AssertionFailed else Returns (- EINVAL), w))
   \<and> (vt = None \<or> attrib = None \<longrightarrow>
      up_getcursor cfg w vt attrib =
        (if CONFIG_DEBUG cfg then AssertionFailed else Returns (- EINVAL), w, attrib))
   \<and> (vt = None \<or> settings = None \<longrightarrow>
      up_setcursor cfg w vt settings =
        (if CONFIG_DEBUG cfg then AssertionFailed else Returns (- EINVAL), w, settings))"
  by (simp add: invalid_argument_results)

theorem capability_invalid_argument_witness:
  "up_getvideoinfo release_config ready_world None (Some zero_videoinfo)
     = (Returns (- EINVAL), ready_world, Some zero_videoinfo)
   \<and> up_getplaneinfo release_config ready_world None 0 (Some zero_planeinfo)
     = (Returns (- EINVAL), ready_world, Some zero_planeinfo)
   \<and> up_getcmap release_config ready_world None (Some white_cmap)
     = (Returns (- EINVAL), ready_world, Some white_cmap)
   \<and> up_putcmap release_config ready_world None (Some white_cmap)
     = (Returns (- EINVAL), ready_world)
   \<and> up_getcursor release_config ready_world None (Some zero_cursorattrib)
     = (Returns (- EINVAL), ready_world, Some zero_cursorattrib)
   \<and> up_setcursor release_config ready_world None (Some zero_setcursor)
     = (Returns (- EINVAL), ready_world, Some zero_setcursor)"
proof -
  have c: "CONFIG_DEBUG release_config = False"
    by (simp add: release_config_def)
  from capability_invalid_argument
    [of None "Some zero_videoinfo" release_config ready_world "Some zero_planeinfo" 0
        "Some white_cmap" "Some zero_cursorattrib" "Some zero_setcursor"]
    c
  show ?thesis
    by simp
qed

end
